theory Spec2Isabelle
  imports Complex_Main
begin

section \<open>Python values\<close>

text \<open>
  A Python \<^verbatim>\<open>float\<close> is modelled as a real number or one of the three special values;
  rounding to binary64 and overflow are not modelled. Strings are sequences of ASCII
  characters.
\<close>

datatype pyfloat = Finite real | PosInf | NegInf | NaN

datatype pyval =
    PNone
  | PBool bool
  | PInt int
  | PFloat pyfloat
  | PStr string
  | PList "pyval list"
  | PDict "(string \<times> pyval) list"

datatype error =
    FileNotFoundError
  | JSONDecodeError
  | KeyError string
  | TypeError
  | ValueError
  | IndexError
  | AttributeError string

text \<open>Comparison \<^verbatim>\<open>x <= y\<close> on floats: every comparison with NaN is false.\<close>

fun float_le :: "pyfloat \<Rightarrow> pyfloat \<Rightarrow> bool" where
  "float_le NaN _ = False"
| "float_le _ NaN = False"
| "float_le NegInf _ = True"
| "float_le _ PosInf = True"
| "float_le (Finite x) (Finite y) = (x \<le> y)"
| "float_le (Finite x) NegInf = False"
| "float_le PosInf (Finite y) = False"
| "float_le PosInf NegInf = False"



text \<open>
  \<^verbatim>\<open>isinstance(v, (int, float))\<close>, with the value as a float; \<^verbatim>\<open>bool\<close> is a subclass
  of \<^verbatim>\<open>int\<close> in Python.
\<close>

fun as_number :: "pyval \<Rightarrow> pyfloat option" where
  "as_number (PBool b) = Some (Finite (if b then 1 else 0))"
| "as_number (PInt i) = Some (Finite (real_of_int i))"
| "as_number (PFloat f) = Some f"
| "as_number _ = None"

subsection \<open>Strings\<close>

text \<open>The ASCII characters for which \<^verbatim>\<open>str.isspace\<close> holds.\<close>

definition is_space :: "char \<Rightarrow> bool" where
  "is_space c = (c \<in> set [CHR 0x09, CHR 0x0A, CHR 0x0B, CHR 0x0C, CHR 0x0D,
                           CHR 0x1C, CHR 0x1D, CHR 0x1E, CHR 0x1F, CHR 0x20])"

definition strip :: "string \<Rightarrow> string" where
  "strip s = rev (dropWhile is_space (rev (dropWhile is_space s)))"

definition lower_char :: "char \<Rightarrow> char" where
  "lower_char c =
     (case map_of (zip ''ABCDEFGHIJKLMNOPQRSTUVWXYZ'' ''abcdefghijklmnopqrstuvwxyz'') c of
        Some d \<Rightarrow> d
      | None \<Rightarrow> c)"

definition lower :: "string \<Rightarrow> string" where
  "lower s = map lower_char s"

text \<open>\<^verbatim>\<open>name.replace(' ', '_')\<close>\<close>

definition replace_spaces :: "string \<Rightarrow> string" where
  "replace_spaces s = map (\<lambda>c. if c = CHR '' '' then CHR ''_'' else c) s"

definition digit_char :: "nat \<Rightarrow> char" where
  "digit_char d = char_of (48 + d)"

function str_of_nat :: "nat \<Rightarrow> string" where
  "str_of_nat n = (if n < 10 then [digit_char n] else str_of_nat (n div 10) @ [digit_char (n mod 10)])"
  by pat_completeness auto
termination
  by (relation "measure id") auto

text \<open>\<^verbatim>\<open>str(i)\<close> for an integer.\<close>

definition str_of_int :: "int \<Rightarrow> string" where
  "str_of_int i = (if i < 0 then CHR ''-'' # str_of_nat (nat (- i)) else str_of_nat (nat i))"

subsection \<open>The builtin \<^verbatim>\<open>float(str)\<close>\<close>

text \<open>
  The grammar of the argument, after whitespace is stripped:
  \<^verbatim>\<open>[sign] (floatnumber | "inf" | "infinity" | "nan")\<close>, the words in any case, with
  \<^verbatim>\<open>digitpart ::= digit (["_"] digit)*\<close>,
  \<^verbatim>\<open>number ::= [digitpart] "." digitpart | digitpart ["."]\<close> and
  \<^verbatim>\<open>floatnumber ::= number [("e" | "E") [sign] digitpart]\<close>.
  A string outside the grammar raises ValueError.
\<close>

definition digit_val :: "char \<Rightarrow> nat option" where
  "digit_val c =
     (let n = (of_char c :: nat) in if 48 \<le> n \<and> n \<le> 57 then Some (n - 48) else None)"

text \<open>
  The rest of a digitpart: the value read so far, the number of digits read so far, and
  the input. Returns the value, the number of digits and the unread input.
\<close>

fun digits_tail :: "nat \<Rightarrow> nat \<Rightarrow> string \<Rightarrow> nat \<times> nat \<times> string" where
  "digits_tail v k [] = (v, k, [])"
| "digits_tail v k [c] =
     (case digit_val c of Some d \<Rightarrow> (10 * v + d, Suc k, []) | None \<Rightarrow> (v, k, [c]))"
| "digits_tail v k (c # c' # cs) =
     (case digit_val c of
        Some d \<Rightarrow> digits_tail (10 * v + d) (Suc k) (c' # cs)
      | None \<Rightarrow>
          if c = CHR ''_'' then
            (case digit_val c' of
               Some d \<Rightarrow> digits_tail (10 * v + d) (Suc k) cs
             | None \<Rightarrow> (v, k, c # c' # cs))
          else (v, k, c # c' # cs))"

definition digitpart :: "string \<Rightarrow> (nat \<times> nat \<times> string) option" where
  "digitpart s =
     (case s of
        [] \<Rightarrow> None
      | c # cs \<Rightarrow> (case digit_val c of None \<Rightarrow> None | Some d \<Rightarrow> Some (digits_tail d 1 cs)))"

text \<open>A leading sign: whether it is a minus, and the input after it.\<close>

definition take_sign :: "string \<Rightarrow> bool \<times> string" where
  "take_sign s =
     (case s of
        [] \<Rightarrow> (False, [])
      | c # cs \<Rightarrow>
          if c = CHR ''-'' then (True, cs)
          else if c = CHR ''+'' then (False, cs)
          else (False, c # cs))"

text \<open>The number: its value and the unread input.\<close>

definition number_part :: "string \<Rightarrow> (real \<times> string) option" where
  "number_part s =
     (case s of
        [] \<Rightarrow> None
      | c # cs \<Rightarrow>
          if c = CHR ''.'' then
            (case digitpart cs of
               None \<Rightarrow> None
             | Some (v, k, r) \<Rightarrow> Some (real v / 10 ^ k, r))
          else
            (case digitpart s of
               None \<Rightarrow> None
             | Some (v, k, r) \<Rightarrow>
                 (case r of
                    [] \<Rightarrow> Some (real v, [])
                  | d # r' \<Rightarrow>
                      if d = CHR ''.'' then
                        (case digitpart r' of
                           None \<Rightarrow> Some (real v, r')
                         | Some (w, j, r'') \<Rightarrow> Some (real v + real w / 10 ^ j, r''))
                      else Some (real v, r))))"

text \<open>The optional exponent, which must use up the input: the power of ten.\<close>

definition exponent_part :: "string \<Rightarrow> int option" where
  "exponent_part s =
     (case s of
        [] \<Rightarrow> Some 0
      | c # cs \<Rightarrow>
          if c = CHR ''e'' \<or> c = CHR ''E'' then
            (case take_sign cs of
               (neg, r) \<Rightarrow>
                 (case digitpart r of
                    Some (v, k, []) \<Rightarrow> Some (if neg then - int v else int v)
                  | _ \<Rightarrow> None))
          else None)"

definition floatnumber :: "string \<Rightarrow> real option" where
  "floatnumber s =
     (case number_part s of
        None \<Rightarrow> None
      | Some (x, r) \<Rightarrow>
          (case exponent_part r of
             None \<Rightarrow> None
           | Some e \<Rightarrow> Some (if 0 \<le> e then x * 10 ^ nat e else x / 10 ^ nat (- e))))"

definition py_float :: "string \<Rightarrow> error + pyfloat" where
  "py_float s =
     (case take_sign (strip s) of
        (neg, body) \<Rightarrow>
          if lower body = ''inf'' \<or> lower body = ''infinity'' then
            Inr (if neg then NegInf else PosInf)
          else if lower body = ''nan'' then Inr NaN
          else
            (case floatnumber body of
               None \<Rightarrow> Inl ValueError
             | Some x \<Rightarrow> Inr (Finite (if neg then - x else x))))"


section \<open>The data model\<close>

text \<open>
  \<^verbatim>\<open>class Grade\<close>: one attribute, whatever value it was created with (the facade creates
  \<^verbatim>\<open>'a'\<close> or a float; a loaded document may hold any JSON value).
\<close>

datatype Grade = Grade (grade_value: pyval)

text \<open>\<^verbatim>\<open>class Modul\<close>; the attribute \<^verbatim>\<open>grade\<close> is \<^verbatim>\<open>None\<close> or a Grade.\<close>

record Modul =
  modul_id :: string
  modul_name :: string
  credits :: int
  exam_type :: string
  grade :: "Grade option"

record Semester =
  number :: int
  modules :: "Modul list"

record Study_program =
  program_name :: string
  total_credits :: int
  semesters :: "Semester list"

text \<open>
  \<^verbatim>\<open>class Student\<close>. Its constructor assigns the first three attributes only;
  \<^verbatim>\<open>study_goal\<close> is \<open>None\<close> as long as the attribute has not been assigned.
\<close>

record Student =
  student_name :: string
  matriculation_number :: string
  study_program :: Study_program
  study_goal :: "pyval option"

definition Study_program_init :: "string \<Rightarrow> int \<Rightarrow> Study_program" where
  "Study_program_init name tc = \<lparr>program_name = name, total_credits = tc, semesters = []\<rparr>"

definition Semester_init :: "int \<Rightarrow> Semester" where
  "Semester_init n = \<lparr>number = n, modules = []\<rparr>"

definition Student_init :: "string \<Rightarrow> string \<Rightarrow> Study_program \<Rightarrow> Student" where
  "Student_init name mn sp =
     \<lparr>student_name = name, matriculation_number = mn, study_program = sp, study_goal = None\<rparr>"

subsection \<open>Modul.status\<close>

definition status :: "Modul \<Rightarrow> string" where
  "status m =
     (case grade m of
        None \<Rightarrow> ''none''
      | Some g \<Rightarrow>
          if (case grade_value g of PStr s \<Rightarrow> lower s = ''a'' | _ \<Rightarrow> False) then ''accepted''
          else if (case as_number (grade_value g) of
                     Some x \<Rightarrow> float_le x (Finite 4)
                   | None \<Rightarrow> False) then ''passed''
          else ''none'')"

subsection \<open>Study_program\<close>

definition get_semester :: "Study_program \<Rightarrow> int \<Rightarrow> Semester option" where
  "get_semester sp n = find (\<lambda>s. number s = n) (semesters sp)"

text \<open>The insertion loop of \<^verbatim>\<open>add_semester\<close>: before the first semester with a greater number.\<close>

fun insert_semester :: "Semester \<Rightarrow> Semester list \<Rightarrow> Semester list" where
  "insert_semester s [] = [s]"
| "insert_semester s (x # xs) =
     (if number x > number s then s # x # xs else x # insert_semester s xs)"

definition add_semester :: "Study_program \<Rightarrow> Semester \<Rightarrow> error + Study_program" where
  "add_semester sp s =
     (if list_ex (\<lambda>x. number x = number s) (semesters sp) then Inl ValueError
      else Inr (sp\<lparr>semesters := insert_semester s (semesters sp)\<rparr>))"


text \<open>Every module of the program, semester by semester.\<close>

definition all_modules :: "Study_program \<Rightarrow> Modul list" where
  "all_modules sp = concat (map modules (semesters sp))"

definition get_total_credits :: "Study_program \<Rightarrow> int" where
  "get_total_credits sp = sum_list (map credits (all_modules sp))"


section \<open>Serialisation\<close>

text \<open>
  A dictionary is an association list whose keys are distinct, looked up with
  \<^const>\<open>map_of\<close>. \<^verbatim>\<open>json.dump\<close> followed by \<^verbatim>\<open>json.load\<close> is the identity on such values,
  so a document is held as the value itself.
\<close>

definition and_then :: "error + 'a \<Rightarrow> ('a \<Rightarrow> error + 'b) \<Rightarrow> error + 'b" where
  "and_then r f = (case r of Inl e \<Rightarrow> Inl e | Inr x \<Rightarrow> f x)"

fun map_result :: "('a \<Rightarrow> error + 'b) \<Rightarrow> 'a list \<Rightarrow> error + 'b list" where
  "map_result f [] = Inr []"
| "map_result f (x # xs) =
     and_then (f x) (\<lambda>y. and_then (map_result f xs) (\<lambda>ys. Inr (y # ys)))"

text \<open>\<^verbatim>\<open>data[key]\<close>\<close>

definition item :: "pyval \<Rightarrow> string \<Rightarrow> error + pyval" where
  "item data key =
     (case data of
        PDict d \<Rightarrow> (case map_of d key of None \<Rightarrow> Inl (KeyError key) | Some v \<Rightarrow> Inr v)
      | _ \<Rightarrow> Inl TypeError)"

text \<open>
  The attributes of the records are typed as the facade creates them. A document that
  holds a value of another type in such a field is outside the model: reading the field
  reports TypeError.
\<close>

definition str_item :: "pyval \<Rightarrow> string \<Rightarrow> error + string" where
  "str_item data key =
     and_then (item data key) (\<lambda>v. case v of PStr s \<Rightarrow> Inr s | _ \<Rightarrow> Inl TypeError)"

definition int_item :: "pyval \<Rightarrow> string \<Rightarrow> error + int" where
  "int_item data key =
     and_then (item data key) (\<lambda>v. case v of PInt i \<Rightarrow> Inr i | _ \<Rightarrow> Inl TypeError)"

text \<open>\<^verbatim>\<open>data.get(key, [])\<close>, read as a list.\<close>

definition list_get :: "pyval \<Rightarrow> string \<Rightarrow> error + pyval list" where
  "list_get data key =
     (case data of
        PDict d \<Rightarrow>
          (case map_of d key of
             None \<Rightarrow> Inr []
           | Some (PList xs) \<Rightarrow> Inr xs
           | Some _ \<Rightarrow> Inl TypeError)
      | _ \<Rightarrow> Inl TypeError)"

definition Grade_to_dict :: "Grade \<Rightarrow> pyval" where
  "Grade_to_dict g = PDict [(''grade'', grade_value g)]"

definition Grade_from_dict :: "pyval \<Rightarrow> error + Grade" where
  "Grade_from_dict data = and_then (item data ''grade'') (\<lambda>v. Inr (Grade v))"

definition Modul_to_dict :: "Modul \<Rightarrow> pyval" where
  "Modul_to_dict m =
     PDict [(''id'', PStr (modul_id m)),
            (''name'', PStr (modul_name m)),
            (''credits'', PInt (credits m)),
            (''exam_type'', PStr (exam_type m)),
            (''grade'', case grade m of Some g \<Rightarrow> Grade_to_dict g | None \<Rightarrow> PNone)]"

definition Modul_from_dict :: "pyval \<Rightarrow> error + Modul" where
  "Modul_from_dict data =
     and_then
       (case data of
          PDict d \<Rightarrow>
            (case map_of d ''grade'' of
               Some (PDict gd) \<Rightarrow> and_then (Grade_from_dict (PDict gd)) (\<lambda>g. Inr (Some g))
             | _ \<Rightarrow> Inr None)
        | _ \<Rightarrow> Inl TypeError)
       (\<lambda>g. and_then (str_item data ''id'')
       (\<lambda>i. and_then (str_item data ''name'')
       (\<lambda>n. and_then (int_item data ''credits'')
       (\<lambda>c. and_then (str_item data ''exam_type'')
       (\<lambda>e. Inr \<lparr>modul_id = i, modul_name = n, credits = c, exam_type = e, grade = g\<rparr>)))))"

definition Semester_to_dict :: "Semester \<Rightarrow> pyval" where
  "Semester_to_dict s =
     PDict [(''number'', PInt (number s)),
            (''modules'', PList (map Modul_to_dict (modules s)))]"

definition Semester_from_dict :: "pyval \<Rightarrow> error + Semester" where
  "Semester_from_dict data =
     and_then (int_item data ''number'')
       (\<lambda>n. and_then (list_get data ''modules'')
       (\<lambda>ms. and_then (map_result Modul_from_dict ms)
       (\<lambda>ms'. Inr ((Semester_init n)\<lparr>modules := ms'\<rparr>))))"

definition Study_program_to_dict :: "Study_program \<Rightarrow> pyval" where
  "Study_program_to_dict sp =
     PDict [(''name'', PStr (program_name sp)),
            (''total_credits'', PInt (total_credits sp)),
            (''semesters'', PList (map Semester_to_dict (semesters sp)))]"

text \<open>
  \<^verbatim>\<open>from_dict\<close> passes \<^verbatim>\<open>data.get('total_credits', 0)\<close> to the constructor and overwrites
  the attribute with \<^verbatim>\<open>get_total_credits()\<close> before anything reads it; the model passes 0
  to the constructor.
\<close>

definition Study_program_from_dict :: "pyval \<Rightarrow> error + Study_program" where
  "Study_program_from_dict data =
     and_then (str_item data ''name'')
       (\<lambda>n. and_then (list_get data ''semesters'')
       (\<lambda>ss. and_then (map_result Semester_from_dict ss)
       (\<lambda>ss'. let sp = (Study_program_init n 0)\<lparr>semesters := ss'\<rparr>
              in Inr (sp\<lparr>total_credits := get_total_credits sp\<rparr>))))"

definition no_study_goal :: string where
  "no_study_goal =
     [CHR 0x27] @ ''Student'' @ [CHR 0x27] @ '' object has no attribute '' @
     [CHR 0x27] @ ''study_goal'' @ [CHR 0x27]"

definition Student_to_dict :: "Student \<Rightarrow> error + pyval" where
  "Student_to_dict s =
     (case study_goal s of
        None \<Rightarrow> Inl (AttributeError no_study_goal)
      | Some g \<Rightarrow>
          Inr (PDict [(''name'', PStr (student_name s)),
                      (''matriculation_number'', PStr (matriculation_number s)),
                      (''study_program'', Study_program_to_dict (study_program s)),
                      (''study_goal'', g)]))"

definition Student_from_dict :: "pyval \<Rightarrow> error + Student" where
  "Student_from_dict data =
     and_then (item data ''study_program'')
       (\<lambda>spd. and_then (Study_program_from_dict spd)
       (\<lambda>sp. and_then (str_item data ''name'')
       (\<lambda>n. and_then (str_item data ''matriculation_number'')
       (\<lambda>mn. Inr ((Student_init n mn sp)
                \<lparr>study_goal :=
                   Some (case data of
                           PDict d \<Rightarrow>
                             (case map_of d ''study_goal'' of
                                None \<Rightarrow> PFloat (Finite 0)
                              | Some v \<Rightarrow> v)
                         | _ \<Rightarrow> PFloat (Finite 0))\<rparr>)))))"

section \<open>The two files and the facade's state\<close>

text \<open>
  A file that exists holds a JSON document or something \<^verbatim>\<open>json.load\<close> rejects (such as
  the empty file that \<^verbatim>\<open>open(path, 'w')\<close> leaves when nothing is written after it).
  Opening a file for writing and writing to it always succeed.
\<close>

datatype file_content = Unparsable | Document pyval

record Logic =
  student :: "Student option"
  resources :: "pyval list"
  student_file :: "file_content option"
  resources_file :: "file_content option"

text \<open>
  A call ends by returning a value or by raising; either way it leaves a state behind.
\<close>

type_synonym 'a outcome = "(error + 'a) \<times> Logic"

definition read_json :: "file_content option \<Rightarrow> error + pyval" where
  "read_json f =
     (case f of
        None \<Rightarrow> Inl FileNotFoundError
      | Some Unparsable \<Rightarrow> Inl JSONDecodeError
      | Some (Document d) \<Rightarrow> Inr d)"

definition load_student_data :: "Logic \<Rightarrow> error + Student" where
  "load_student_data st = and_then (read_json (student_file st)) Student_from_dict"

text \<open>
  \<^verbatim>\<open>save_student_data\<close> opens the file for writing, which creates or empties it, and then
  evaluates \<^verbatim>\<open>student.to_dict()\<close>.
\<close>

definition save_student_data :: "Student \<Rightarrow> Logic \<Rightarrow> unit outcome" where
  "save_student_data s st =
     (case Student_to_dict s of
        Inl e \<Rightarrow> (Inl e, st\<lparr>student_file := Some Unparsable\<rparr>)
      | Inr d \<Rightarrow> (Inr (), st\<lparr>student_file := Some (Document d)\<rparr>))"

definition load_resources :: "Logic \<Rightarrow> error + pyval list" where
  "load_resources st =
     (case read_json (resources_file st) of
        Inl FileNotFoundError \<Rightarrow> Inr []
      | Inl e \<Rightarrow> Inl e
      | Inr data \<Rightarrow>
          and_then (item data ''resources'')
            (\<lambda>v. case v of PList rs \<Rightarrow> Inr rs | _ \<Rightarrow> Inl TypeError))"

definition save_resources :: "pyval list \<Rightarrow> Logic \<Rightarrow> Logic" where
  "save_resources rs st =
     st\<lparr>resources_file := Some (Document (PDict [(''resources'', PList rs)]))\<rparr>"


section \<open>The facade: \<^verbatim>\<open>class Logic\<close>\<close>

text \<open>
  The student attribute is \<open>None\<close> until \<^verbatim>\<open>initialize_data\<close> assigns it; a method that reads
  \<^verbatim>\<open>self.student.study_program\<close> without a guard raises AttributeError on \<open>None\<close>.
\<close>

definition no_study_program :: string where
  "no_study_program =
     [CHR 0x27] @ ''NoneType'' @ [CHR 0x27] @ '' object has no attribute '' @
     [CHR 0x27] @ ''study_program'' @ [CHR 0x27]"

definition initialize_data :: "Logic \<Rightarrow> unit outcome" where
  "initialize_data st =
     (case load_student_data st of
        Inr s \<Rightarrow> (Inr (), st\<lparr>student := Some s\<rparr>)
      | Inl FileNotFoundError \<Rightarrow>
          (let default_study_program = Study_program_init ''Undeclared Program'' 0;
               s = Student_init ''New Student'' ''000000'' default_study_program
           in save_student_data s (st\<lparr>student := Some s\<rparr>))
      | Inl e \<Rightarrow> (Inl e, st))"

text \<open>The constructor, on the two files as it finds them.\<close>

definition Logic_init :: "file_content option \<Rightarrow> file_content option \<Rightarrow> unit outcome" where
  "Logic_init sf rf =
     initialize_data \<lparr>student = None, resources = [], student_file = sf, resources_file = rf\<rparr>"

fun find_module_by_id :: "Semester list \<Rightarrow> string \<Rightarrow> (Modul \<times> int) option" where
  "find_module_by_id [] module_id = None"
| "find_module_by_id (semester # rest) module_id =
     (case find (\<lambda>m. modul_id m = module_id) (modules semester) of
        Some m \<Rightarrow> Some (m, number semester)
      | None \<Rightarrow> find_module_by_id rest module_id)"

subsection \<open>add_module\<close>

text \<open>The module id; \<open>now\<close> is the value of \<^verbatim>\<open>int(time.time())\<close>.\<close>

definition make_module_id :: "string \<Rightarrow> int \<Rightarrow> string" where
  "make_module_id name now = ''module_'' @ replace_spaces name @ ''_'' @ str_of_int now"

definition invalid_grade_message :: string where
  "invalid_grade_message =
     ''Not a valid grade or '' @ [CHR 0x27] @ ''a'' @ [CHR 0x27] @
     '' for accepted. Please try again.''"

text \<open>The grade block of \<^verbatim>\<open>add_module\<close>: the Grade to store, or the ValueError raised.\<close>

definition add_module_grade :: "string \<Rightarrow> error + Grade option" where
  "add_module_grade grade_str =
     (if grade_str = [] then Inr None
      else
        and_then
          (if lower (strip grade_str) = ''a'' then Inr (PStr ''a'')
           else and_then (py_float grade_str) (\<lambda>f. Inr (PFloat f)))
          (\<lambda>grade_value.
             if grade_value = PStr ''a'' \<or>
                (case grade_value of
                   PFloat f \<Rightarrow> float_le (Finite 1) f \<and> float_le f (Finite 5)
                 | _ \<Rightarrow> False)
             then Inr (Some (Grade grade_value))
             else Inl ValueError))"

definition add_module_to_semester :: "Semester \<Rightarrow> Modul \<Rightarrow> Semester" where
  "add_module_to_semester s m = s\<lparr>modules := modules s @ [m]\<rparr>"

text \<open>
  An update of the semester object that \<^const>\<open>get_semester\<close> returns: the first one of
  the list with that number.
\<close>

fun update_semester :: "int \<Rightarrow> (Semester \<Rightarrow> Semester) \<Rightarrow> Semester list \<Rightarrow> Semester list" where
  "update_semester n f [] = []"
| "update_semester n f (s # ss) =
     (if number s = n then f s # ss else s # update_semester n f ss)"

text \<open>\<^verbatim>\<open>str(e)\<close> of the exception a save can raise.\<close>

definition error_message :: "error \<Rightarrow> string" where
  "error_message e = (case e of AttributeError msg \<Rightarrow> msg | _ \<Rightarrow> [])"

definition add_module ::
  "Logic \<Rightarrow> int \<Rightarrow> int \<Rightarrow> string \<Rightarrow> int \<Rightarrow> string \<Rightarrow> string \<Rightarrow> (bool \<times> string) outcome"
where
  "add_module st now semester_number name cr et grade_str =
     (case student st of
        None \<Rightarrow> (Inl (AttributeError no_study_program), st)
      | Some s \<Rightarrow>
          (case (case get_semester (study_program s) semester_number of
                   None \<Rightarrow> add_semester (study_program s) (Semester_init semester_number)
                 | Some _ \<Rightarrow> Inr (study_program s)) of
             Inl e \<Rightarrow> (Inl e, st)
           | Inr sp \<Rightarrow>
               (let st1 = st\<lparr>student := Some (s\<lparr>study_program := sp\<rparr>)\<rparr>;
                    module_id = make_module_id name now
                in case add_module_grade grade_str of
                     Inl ValueError \<Rightarrow> (Inr (False, invalid_grade_message), st1)
                   | Inl e \<Rightarrow> (Inl e, st1)
                   | Inr g \<Rightarrow>
                       (let new_module =
                              \<lparr>modul_id = module_id, modul_name = name, credits = cr,
                               exam_type = et, grade = g\<rparr>;
                            s2 = s\<lparr>study_program :=
                                    sp\<lparr>semesters :=
                                         update_semester semester_number
                                           (\<lambda>x. add_module_to_semester x new_module)
                                           (semesters sp)\<rparr>\<rparr>
                        in case save_student_data s2 (st\<lparr>student := Some s2\<rparr>) of
                             (Inl e, st2) \<Rightarrow>
                               (Inr (False, ''Failed to add the module. Error: '' @ error_message e),
                                st2)
                           | (Inr _, st2) \<Rightarrow> (Inr (True, ''Module added successfully.''), st2)))))"

subsection \<open>edit_grade\<close>

fun set_module_grade :: "string \<Rightarrow> Grade option \<Rightarrow> Modul list \<Rightarrow> Modul list" where
  "set_module_grade module_id g [] = []"
| "set_module_grade module_id g (m # ms) =
     (if modul_id m = module_id then m\<lparr>grade := g\<rparr> # ms
      else m # set_module_grade module_id g ms)"

text \<open>
  The assignment \<^verbatim>\<open>module.grade = ...\<close> on the object \<^const>\<open>find_module_by_id\<close> returns: the
  first module with that id, in the first semester that has one.
\<close>

fun set_grade :: "string \<Rightarrow> Grade option \<Rightarrow> Semester list \<Rightarrow> Semester list" where
  "set_grade module_id g [] = []"
| "set_grade module_id g (s # ss) =
     (case find (\<lambda>m. modul_id m = module_id) (modules s) of
        Some _ \<Rightarrow> s\<lparr>modules := set_module_grade module_id g (modules s)\<rparr> # ss
      | None \<Rightarrow> s # set_grade module_id g ss)"

text \<open>The grade block of \<^verbatim>\<open>edit_grade\<close>.\<close>

definition edit_grade_grade :: "string \<Rightarrow> error + Grade option" where
  "edit_grade_grade new_grade_str =
     (if strip new_grade_str = [] then Inr None
      else if lower (strip new_grade_str) = ''a'' then Inr (Some (Grade (PStr ''a'')))
      else and_then (py_float new_grade_str) (\<lambda>new_grade. Inr (Some (Grade (PFloat new_grade)))))"

definition edit_grade :: "Logic \<Rightarrow> string \<Rightarrow> string \<Rightarrow> (bool \<times> string) outcome" where
  "edit_grade st module_id new_grade_str =
     (case student st of
        None \<Rightarrow> (Inl (AttributeError no_study_program), st)
      | Some s \<Rightarrow>
          (case find_module_by_id (semesters (study_program s)) module_id of
             None \<Rightarrow> (Inr (False, ''Module not found.''), st)
           | Some _ \<Rightarrow>
               (case edit_grade_grade new_grade_str of
                  Inl ValueError \<Rightarrow> (Inr (False, invalid_grade_message), st)
                | Inl e \<Rightarrow> (Inl e, st)
                | Inr g \<Rightarrow>
                    (let s1 = s\<lparr>study_program :=
                                 (study_program s)\<lparr>semesters :=
                                    set_grade module_id g (semesters (study_program s))\<rparr>\<rparr>
                     in case save_student_data s1 (st\<lparr>student := Some s1\<rparr>) of
                          (Inl e, st2) \<Rightarrow> (Inl e, st2)
                        | (Inr _, st2) \<Rightarrow> (Inr (True, []), st2)))))"

subsection \<open>delete_module\<close>



subsection \<open>Resources\<close>

text \<open>\<^verbatim>\<open>Resource(name, url).to_dict()\<close>\<close>

definition Resource_to_dict :: "string \<Rightarrow> string \<Rightarrow> pyval" where
  "Resource_to_dict name url = PDict [(''name'', PStr name), (''url'', PStr url)]"

text \<open>
  \<^verbatim>\<open>get_resources\<close> fills the attribute \<^verbatim>\<open>resources\<close>; \<^verbatim>\<open>add_resource\<close> and
  \<^verbatim>\<open>delete_resource\<close> work on the file alone.
\<close>

definition get_resources :: "Logic \<Rightarrow> pyval list outcome" where
  "get_resources st =
     (case load_resources st of
        Inl FileNotFoundError \<Rightarrow> (Inr [], st\<lparr>resources := []\<rparr>)
      | Inl e \<Rightarrow> (Inl e, st)
      | Inr rs \<Rightarrow> (Inr rs, st\<lparr>resources := rs\<rparr>))"

definition add_resource :: "Logic \<Rightarrow> string \<Rightarrow> string \<Rightarrow> unit outcome" where
  "add_resource st name url =
     (case load_resources st of
        Inl e \<Rightarrow> (Inl e, st)
      | Inr rs \<Rightarrow> (Inr (), save_resources (rs @ [Resource_to_dict name url]) st))"

text \<open>
  \<^verbatim>\<open>list.pop(index)\<close>: a negative index counts from the end; an index outside the list
  raises IndexError. The list after the removal.
\<close>

definition pop :: "'a list \<Rightarrow> int \<Rightarrow> error + 'a list" where
  "pop xs i =
     (let n = int (length xs);
          j = (if i < 0 then i + n else i)
      in if 0 \<le> j \<and> j < n then Inr (take (nat j) xs @ drop (Suc (nat j)) xs)
         else Inl IndexError)"

definition delete_resource :: "Logic \<Rightarrow> int \<Rightarrow> bool outcome" where
  "delete_resource st index =
     (case load_resources st of
        Inl e \<Rightarrow> (Inl e, st)
      | Inr rs \<Rightarrow>
          (case pop rs index of
             Inl IndexError \<Rightarrow> (Inr False, st)
           | Inl e \<Rightarrow> (Inl e, st)
           | Inr rs' \<Rightarrow> (Inr True, save_resources rs' st)))"

subsection \<open>Derived metrics\<close>




definition Logic_get_total_credits :: "Logic \<Rightarrow> error + int" where
  "Logic_get_total_credits st =
     (case student st of
        None \<Rightarrow> Inl (AttributeError no_study_program)
      | Some s \<Rightarrow> Inr (get_total_credits (study_program s)))"

definition get_completed_credits :: "Logic \<Rightarrow> error + int" where
  "get_completed_credits st =
     (case student st of
        None \<Rightarrow> Inl (AttributeError no_study_program)
      | Some s \<Rightarrow>
          Inr (sum_list (concat (map (\<lambda>semester.
                 concat (map (\<lambda>modul.
                   if grade modul \<noteq> None \<and>
                      (status modul = ''passed'' \<or> status modul = ''accepted'')
                   then [credits modul] else [])
                   (modules semester)))
                 (semesters (study_program s))))))"

section \<open>Notions of the specification\<close>

text \<open>A module counts as completed when its status is \<^verbatim>\<open>passed\<close> or \<^verbatim>\<open>accepted\<close>.\<close>

definition counts_as_completed :: "Modul \<Rightarrow> bool" where
  "counts_as_completed m = (status m = ''passed'' \<or> status m = ''accepted'')"


section \<open>An example state\<close>

definition math :: Modul where
  "math = \<lparr>modul_id = ''module_Math_1700000000'', modul_name = ''Math'', credits = 5,
           exam_type = ''written'', grade = Some (Grade (PFloat (Finite 3)))\<rparr>"

definition physics :: Modul where
  "physics = \<lparr>modul_id = ''module_Physics_1700000100'', modul_name = ''Physics'', credits = 6,
              exam_type = ''oral'', grade = Some (Grade (PFloat (Finite 5)))\<rparr>"

definition stats :: Modul where
  "stats = \<lparr>modul_id = ''module_Statistics_1700000200'', modul_name = ''Statistics'',
            credits = 4, exam_type = ''written'', grade = None\<rparr>"

definition thesis :: Modul where
  "thesis = \<lparr>modul_id = ''module_Thesis_1700000300'', modul_name = ''Thesis'', credits = 10,
             exam_type = ''report'', grade = Some (Grade (PStr ''a''))\<rparr>"

text \<open>
  The program as the facade holds it after the four modules were added to the default
  program: the stored total is still the 0 of the default.
\<close>

definition example_program :: Study_program where
  "example_program =
     \<lparr>program_name = ''Undeclared Program'', total_credits = 0,
      semesters = [\<lparr>number = 1, modules = [math, physics, stats]\<rparr>,
                   \<lparr>number = 2, modules = [thesis]\<rparr>]\<rparr>"

definition example_student :: Student where
  "example_student =
     \<lparr>student_name = ''New Student'', matriculation_number = ''000000'',
      study_program = example_program, study_goal = Some (PFloat (Finite 0))\<rparr>"

definition example_resources :: "pyval list" where
  "example_resources =
     [PDict [(''name'', PStr ''Campus''), (''url'', PStr ''https://campus.example'')],
      PDict [(''name'', PStr ''Library''), (''url'', PStr ''https://library.example'')]]"

definition example_logic :: Logic where
  "example_logic =
     \<lparr>student = Some example_student, resources = [],
      student_file =
        Some (Document (PDict
          [(''name'', PStr ''New Student''),
           (''matriculation_number'', PStr ''000000''),
           (''study_program'', Study_program_to_dict example_program),
           (''study_goal'', PFloat (Finite 0))])),
      resources_file = Some (Document (PDict [(''resources'', PList example_resources)]))\<rparr>"

lemmas example_defs =
  example_logic_def example_student_def example_program_def example_resources_def
  math_def physics_def stats_def thesis_def

section \<open>Start-up without a student file\<close>

text \<open>
  C1. When the student file is absent, the constructor builds the default Student (name
  "New Student", matriculation number "000000", program "Undeclared Program" with a target
  of 0 credits and no semesters) and calls \<^verbatim>\<open>save_student_data\<close>. The Student constructor
  does not assign \<^verbatim>\<open>study_goal\<close>, so \<^verbatim>\<open>to_dict\<close> raises AttributeError inside the save: the
  start-up does not complete, and the file, already opened for writing, is left empty.
\<close>

theorem initialize_data_absent_file_raises:
  "Logic_init None rf =
     (Inl (AttributeError no_study_goal),
      \<lparr>student =
         Some \<lparr>student_name = ''New Student'', matriculation_number = ''000000'',
               study_program =
                 \<lparr>program_name = ''Undeclared Program'', total_credits = 0, semesters = []\<rparr>,
               study_goal = None\<rparr>,
       resources = [], student_file = Some Unparsable, resources_file = rf\<rparr>)"
  by (simp add: Logic_init_def initialize_data_def load_student_data_def read_json_def
      and_then_def Study_program_init_def Student_init_def save_student_data_def
      Student_to_dict_def)

section \<open>Module status\<close>

lemma lower_char_a: "lower_char c = CHR ''a'' \<longleftrightarrow> c = CHR ''a'' \<or> c = CHR ''A''"
  by (simp add: lower_char_def)

lemma lower_eq_a: "lower s = ''a'' \<longleftrightarrow> s = ''a'' \<or> s = ''A''"
  by (cases s) (auto simp: lower_def lower_char_a)

lemma status_None: "grade m = None \<Longrightarrow> status m = ''none''"
  by (simp add: status_def)

lemma status_str: "grade m = Some (Grade (PStr s)) \<Longrightarrow>
    status m = (if s = ''a'' \<or> s = ''A'' then ''accepted'' else ''none'')"
  by (simp add: status_def lower_eq_a)

lemma status_number:
  "grade m = Some (Grade v) \<Longrightarrow> as_number v = Some x \<Longrightarrow>
     status m = (if float_le x (Finite 4) then ''passed'' else ''none'')"
  by (cases v) (simp_all add: status_def)

lemma status_cases: "status m = ''none'' \<or> status m = ''accepted'' \<or> status m = ''passed''"
  by (simp add: status_def split: option.splits)

text \<open>
  C2. The status of a module is a function of its grade alone: \<^verbatim>\<open>none\<close> without a grade,
  \<^verbatim>\<open>accepted\<close> when the grade is the string "a" or "A", \<^verbatim>\<open>passed\<close> when the grade is a number
  that is at most 4.0, and \<^verbatim>\<open>none\<close> when it is a number that is not (a failing 5.0
  included); the status is never \<^verbatim>\<open>failed\<close>.
\<close>

theorem status_of_grade:
  "(grade m = None \<longrightarrow> status m = ''none'') \<and>
   (grade m = Some (Grade (PStr ''a'')) \<or> grade m = Some (Grade (PStr ''A''))
      \<longrightarrow> status m = ''accepted'') \<and>
   (\<forall>v x. grade m = Some (Grade v) \<and> as_number v = Some x
      \<longrightarrow> status m = (if float_le x (Finite 4) then ''passed'' else ''none'')) \<and>
   (\<forall>r. grade m = Some (Grade (PFloat (Finite r)))
      \<longrightarrow> status m = (if r \<le> 4 then ''passed'' else ''none'')) \<and>
   (grade m = grade m' \<longrightarrow> status m = status m') \<and>
   status m \<noteq> ''failed''"
proof -
  have "status m \<noteq> ''failed''"
    using status_cases [of m] by auto
  moreover have "grade m = grade m' \<longrightarrow> status m = status m'"
    by (simp add: status_def)
  moreover have "\<forall>r. grade m = Some (Grade (PFloat (Finite r)))
      \<longrightarrow> status m = (if r \<le> 4 then ''passed'' else ''none'')"
    using status_number [of m "PFloat (Finite r)" "Finite r" for r] by simp
  ultimately show ?thesis
    using status_None [of m] status_str [of m] status_number [of m] by auto
qed

theorem status_of_grade_witness:
  "grade stats = None \<and> status stats = ''none'' \<and>
   grade thesis = Some (Grade (PStr ''a'')) \<and> status thesis = ''accepted'' \<and>
   grade math = Some (Grade (PFloat (Finite 3))) \<and> status math = ''passed'' \<and>
   grade physics = Some (Grade (PFloat (Finite 5))) \<and> status physics = ''none''"
  using status_of_grade [of stats] status_of_grade [of thesis] status_of_grade [of math]
    status_of_grade [of physics]
  by (simp add: stats_def thesis_def math_def physics_def)

section \<open>Completed credits and average grade\<close>

lemma sum_concat_if:
  "sum_list (concat (map (\<lambda>m. if P m then [f m] else []) ms)) =
   sum_list (map (\<lambda>m. if P m then (f m :: int) else 0) ms)"
  by (induction ms) auto

lemma completed_condition:
  "(\<lambda>modul. if grade modul \<noteq> None \<and> (status modul = ''passed'' \<or> status modul = ''accepted'')
            then [credits modul] else []) =
   (\<lambda>m. if counts_as_completed m then [credits m] else [])"
proof
  fix m
  show "(if grade m \<noteq> None \<and> (status m = ''passed'' \<or> status m = ''accepted'')
         then [credits m] else []) =
        (if counts_as_completed m then [credits m] else [])"
    by (cases "grade m") (simp_all add: counts_as_completed_def status_def)
qed

lemma completed_credits_semesters:
  "sum_list (concat (map (\<lambda>semester.
       concat (map (\<lambda>m. if counts_as_completed m then [credits m] else []) (modules semester))) ss)) =
   sum_list (map (\<lambda>m. if counts_as_completed m then credits m else 0) (concat (map modules ss)))"
  by (induction ss) (simp_all add: sum_concat_if)

text \<open>
  C3. The completed credits are the sum of the credits of exactly the modules whose status
  is \<^verbatim>\<open>passed\<close> or \<^verbatim>\<open>accepted\<close>; a module without a grade and a module with the numeric
  grade 5.0 contribute 0.
\<close>

theorem completed_credits_sum:
  assumes "student st = Some s"
  shows "get_completed_credits st =
           Inr (sum_list (map (\<lambda>m. if counts_as_completed m then credits m else 0)
                  (all_modules (study_program s)))) \<and>
         (\<forall>m. grade m = None \<or> grade m = Some (Grade (PFloat (Finite 5)))
            \<longrightarrow> (if counts_as_completed m then credits m else 0) = 0)"
proof -
  have "\<not> counts_as_completed m"
    if "grade m = None \<or> grade m = Some (Grade (PFloat (Finite 5)))" for m
    using that by (auto simp: counts_as_completed_def status_def)
  moreover have "get_completed_credits st =
           Inr (sum_list (map (\<lambda>m. if counts_as_completed m then credits m else 0)
                  (all_modules (study_program s))))"
    unfolding get_completed_credits_def completed_condition
    using assms by (simp add: all_modules_def completed_credits_semesters)
  ultimately show ?thesis by simp
qed

theorem completed_credits_sum_witness:
  "student example_logic = Some example_student \<and>
   get_completed_credits example_logic = Inr 15"
  using completed_credits_sum [of example_logic example_student]
  by (simp add: example_defs all_modules_def counts_as_completed_def status_def lower_def
      lower_char_def)









section \<open>Saving and loading\<close>

lemma Modul_round_trip: "Modul_from_dict (Modul_to_dict m) = Inr m"
  by (cases "grade m")
     (simp_all add: Modul_from_dict_def Modul_to_dict_def Grade_to_dict_def Grade_from_dict_def
        str_item_def int_item_def item_def and_then_def)

lemma Moduls_round_trip: "map_result Modul_from_dict (map Modul_to_dict ms) = Inr ms"
  by (induction ms) (simp_all add: Modul_round_trip and_then_def)

lemma Semester_round_trip: "Semester_from_dict (Semester_to_dict x) = Inr x"
  by (simp add: Semester_from_dict_def Semester_to_dict_def int_item_def item_def list_get_def
      and_then_def Moduls_round_trip Semester_init_def)

lemma Semesters_round_trip: "map_result Semester_from_dict (map Semester_to_dict xs) = Inr xs"
  by (induction xs) (simp_all add: Semester_round_trip and_then_def)

lemma Study_program_round_trip:
  "Study_program_from_dict (Study_program_to_dict sp) =
     Inr (sp\<lparr>total_credits := get_total_credits sp\<rparr>)"
  by (simp add: Study_program_from_dict_def Study_program_to_dict_def str_item_def item_def
      list_get_def and_then_def Semesters_round_trip Study_program_init_def Let_def
      get_total_credits_def all_modules_def)

lemma Student_round_trip:
  assumes "study_goal s = Some g"
  shows "and_then (Student_to_dict s) Student_from_dict =
           Inr (s\<lparr>study_program :=
                   (study_program s)\<lparr>total_credits := get_total_credits (study_program s)\<rparr>\<rparr>)"
  using assms
  by (simp add: Student_to_dict_def Student_from_dict_def item_def str_item_def and_then_def
      Study_program_round_trip Student_init_def)

lemma load_saved_student:
  "load_student_data (snd (save_student_data s st)) =
     (case study_goal s of
        None \<Rightarrow> Inl JSONDecodeError
      | Some g \<Rightarrow> and_then (Student_to_dict s) Student_from_dict)"
  by (simp add: save_student_data_def load_student_data_def read_json_def Student_to_dict_def
      and_then_def split: option.splits)

text \<open>
  C7, as the code has it. Saving a Student and loading it back succeeds when the study goal
  is set, and yields the same Student except that the stored \<^verbatim>\<open>total_credits\<close> of its
  program is the sum of the credits of the program's modules, whatever the value stored
  before.
\<close>

theorem round_trip_recomputes_total_credits:
  assumes "study_goal s = Some g"
  shows "fst (save_student_data s st) = Inr () \<and>
         load_student_data (snd (save_student_data s st)) =
           Inr (s\<lparr>study_program :=
                   (study_program s)\<lparr>total_credits := get_total_credits (study_program s)\<rparr>\<rparr>)"
proof -
  have "fst (save_student_data s st) = Inr ()"
    using assms by (simp add: save_student_data_def Student_to_dict_def)
  then show ?thesis
    using assms Student_round_trip [OF assms] by (simp add: load_saved_student)
qed

theorem round_trip_recomputes_total_credits_witness:
  "study_goal example_student = Some (PFloat (Finite 0)) \<and>
   fst (save_student_data example_student example_logic) = Inr () \<and>
   load_student_data (snd (save_student_data example_student example_logic)) =
     Inr (example_student\<lparr>study_program := example_program\<lparr>total_credits := 25\<rparr>\<rparr>)"
  using round_trip_recomputes_total_credits
          [of example_student "PFloat (Finite 0)" example_logic]
  by (simp add: example_student_def example_program_def get_total_credits_def all_modules_def
      math_def physics_def stats_def thesis_def)

text \<open>
  C7 as stated fails on the state the facade holds after modules were added to the default
  program: the stored total is 0 before the round trip and 25 after it.
\<close>

theorem round_trip_loses_stored_total_credits:
  "total_credits (study_program example_student) = 0 \<and>
   map_sum id (total_credits \<circ> study_program)
     (load_student_data (snd (save_student_data example_student example_logic))) = Inr 25"
  by (simp add: save_student_data_def Student_to_dict_def load_student_data_def read_json_def
      Student_from_dict_def item_def str_item_def and_then_def Study_program_round_trip
      Student_init_def example_student_def example_program_def get_total_credits_def
      all_modules_def math_def physics_def stats_def thesis_def)

section \<open>Grade input\<close>

lemma float_6: "py_float ''6.0'' = Inr (Finite 6)"
  by code_simp

lemma float_minus_1: "py_float ''-1'' = Inr (Finite (- 1))"
  by code_simp

lemma add_module_grade_6: "add_module_grade ''6.0'' = Inl ValueError"
  by (simp add: add_module_grade_def float_6 and_then_def strip_def is_space_def lower_def
      lower_char_def)

lemma edit_grade_grade_6: "edit_grade_grade ''6.0'' = Inr (Some (Grade (PFloat (Finite 6))))"
  by (simp add: edit_grade_grade_def float_6 and_then_def strip_def is_space_def lower_def
      lower_char_def)

lemma edit_grade_grade_minus_1:
  "edit_grade_grade ''-1'' = Inr (Some (Grade (PFloat (Finite (- 1)))))"
  by (simp add: edit_grade_grade_def float_minus_1 and_then_def strip_def is_space_def lower_def
      lower_char_def)

text \<open>
  C5. \<^verbatim>\<open>edit_grade\<close> has no range check: on the example state, the inputs "6.0" and "-1"
  for the ungraded module are accepted, the call returns success with an empty message,
  the module holds the out-of-range grade in memory and in the saved document. The grade
  block of \<^verbatim>\<open>add_module\<close> rejects the same input.
\<close>

theorem edit_grade_accepts_out_of_range:
  "fst (edit_grade example_logic ''module_Statistics_1700000200'' ''6.0'') = Inr (True, []) \<and>
   map_option (all_modules \<circ> study_program)
     (student (snd (edit_grade example_logic ''module_Statistics_1700000200'' ''6.0''))) =
     Some [math, physics, stats\<lparr>grade := Some (Grade (PFloat (Finite 6)))\<rparr>, thesis] \<and>
   map_sum id (all_modules \<circ> study_program)
     (load_student_data
        (snd (edit_grade example_logic ''module_Statistics_1700000200'' ''6.0''))) =
     Inr [math, physics, stats\<lparr>grade := Some (Grade (PFloat (Finite 6)))\<rparr>, thesis] \<and>
   fst (edit_grade example_logic ''module_Statistics_1700000200'' ''-1'') = Inr (True, []) \<and>
   map_option (all_modules \<circ> study_program)
     (student (snd (edit_grade example_logic ''module_Statistics_1700000200'' ''-1''))) =
     Some [math, physics, stats\<lparr>grade := Some (Grade (PFloat (Finite (- 1))))\<rparr>, thesis] \<and>
   add_module_grade ''6.0'' = Inl ValueError"
proof -
  let ?s6 = "example_student
      \<lparr>study_program := example_program
         \<lparr>semesters :=
            [\<lparr>number = 1,
              modules = [math, physics, stats\<lparr>grade := Some (Grade (PFloat (Finite 6)))\<rparr>]\<rparr>,
             \<lparr>number = 2, modules = [thesis]\<rparr>]\<rparr>\<rparr>"
  let ?s1 = "example_student
      \<lparr>study_program := example_program
         \<lparr>semesters :=
            [\<lparr>number = 1,
              modules = [math, physics, stats\<lparr>grade := Some (Grade (PFloat (Finite (- 1))))\<rparr>]\<rparr>,
             \<lparr>number = 2, modules = [thesis]\<rparr>]\<rparr>\<rparr>"
  have found: "find_module_by_id (semesters example_program)
        ''module_Statistics_1700000200'' = Some (stats, 1)"
    by (simp add: example_program_def math_def physics_def stats_def)
  have set6: "set_grade ''module_Statistics_1700000200'' g (semesters example_program) =
      [\<lparr>number = 1, modules = [math, physics, stats\<lparr>grade := g\<rparr>]\<rparr>,
       \<lparr>number = 2, modules = [thesis]\<rparr>]" for g
    by (simp add: example_program_def math_def physics_def stats_def)
  have e6: "edit_grade example_logic ''module_Statistics_1700000200'' ''6.0'' =
      (Inr (True, []), snd (save_student_data ?s6 (example_logic\<lparr>student := Some ?s6\<rparr>)))"
    using found
    by (simp add: edit_grade_def edit_grade_grade_6 set6 save_student_data_def
        Student_to_dict_def example_logic_def example_student_def)
  have e1: "edit_grade example_logic ''module_Statistics_1700000200'' ''-1'' =
      (Inr (True, []), snd (save_student_data ?s1 (example_logic\<lparr>student := Some ?s1\<rparr>)))"
    using found
    by (simp add: edit_grade_def edit_grade_grade_minus_1 set6 save_student_data_def
        Student_to_dict_def example_logic_def example_student_def)
  have mem: "student (snd (save_student_data s (st\<lparr>student := Some s\<rparr>))) = Some s" for s st
    by (simp add: save_student_data_def split: sum.splits)
  have goal6: "study_goal ?s6 = Some (PFloat (Finite 0))"
    by (simp add: example_student_def)
  show ?thesis
    unfolding e6 e1
    using Student_round_trip [OF goal6]
    by (simp add: mem load_saved_student add_module_grade_6 all_modules_def
        example_student_def example_program_def)
qed

text \<open>
  C6. \<^verbatim>\<open>add_module\<close> creates the semester before it checks the grade: on the example
  state, a call for the new semester 3 with the grade input "6.0" returns the failure
  result and leaves the saved document as it was, but the program in memory has gained an
  empty semester 3.
\<close>

theorem add_module_failure_leaves_empty_semester:
  "fst (add_module example_logic now 3 ''Algebra'' 5 ''written'' ''6.0'') =
     Inr (False, invalid_grade_message) \<and>
   map_option (semesters \<circ> study_program) (student example_logic) =
     Some [\<lparr>number = 1, modules = [math, physics, stats]\<rparr>,
           \<lparr>number = 2, modules = [thesis]\<rparr>] \<and>
   map_option (semesters \<circ> study_program)
     (student (snd (add_module example_logic now 3 ''Algebra'' 5 ''written'' ''6.0''))) =
     Some [\<lparr>number = 1, modules = [math, physics, stats]\<rparr>,
           \<lparr>number = 2, modules = [thesis]\<rparr>,
           \<lparr>number = 3, modules = []\<rparr>] \<and>
   student_file (snd (add_module example_logic now 3 ''Algebra'' 5 ''written'' ''6.0'')) =
     student_file example_logic"
  by (simp add: add_module_def add_module_grade_6 get_semester_def add_semester_def
      Semester_init_def example_logic_def example_student_def example_program_def)

section \<open>Deleting a module\<close>








section \<open>Resources\<close>

lemma load_save_resources: "load_resources (save_resources rs st) = Inr rs"
  by (simp add: load_resources_def save_resources_def read_json_def item_def and_then_def)

text \<open>
  C9, as the code has it. \<^verbatim>\<open>add_resource\<close> does not look at its arguments: for every name
  and url, empty or not, it returns normally and appends the pair to the stored list.
\<close>

theorem add_resource_appends:
  assumes "load_resources st = Inr rs"
  shows "fst (add_resource st name url) = Inr () \<and>
         load_resources (snd (add_resource st name url)) =
           Inr (rs @ [PDict [(''name'', PStr name), (''url'', PStr url)]])"
  using assms by (simp add: add_resource_def load_save_resources Resource_to_dict_def)

theorem add_resource_appends_witness:
  "load_resources example_logic = Inr example_resources \<and>
   fst (add_resource example_logic ''Mail'' ''https://mail.example'') = Inr () \<and>
   load_resources (snd (add_resource example_logic ''Mail'' ''https://mail.example'')) =
     Inr (example_resources @
          [PDict [(''name'', PStr ''Mail''), (''url'', PStr ''https://mail.example'')]])"
proof -
  have l: "load_resources example_logic = Inr example_resources"
    by (simp add: load_resources_def example_logic_def read_json_def item_def and_then_def)
  from add_resource_appends [OF l, of "''Mail''" "''https://mail.example''"] l
  show ?thesis by simp
qed

text \<open>
  C9 as stated fails: with an empty name and an empty url the call returns normally and the
  stored list has grown by the empty pair.
\<close>

theorem add_resource_accepts_empty:
  "fst (add_resource example_logic [] []) = Inr () \<and>
   load_resources example_logic = Inr example_resources \<and>
   load_resources (snd (add_resource example_logic [] [])) =
     Inr (example_resources @ [PDict [(''name'', PStr []), (''url'', PStr [])]])"
  by (simp add: add_resource_def load_resources_def save_resources_def example_logic_def
      read_json_def item_def and_then_def Resource_to_dict_def)

lemma pop_range:
  "pop xs i = Inl IndexError \<longleftrightarrow> i \<ge> int (length xs) \<or> i < - int (length xs)"
  by (auto simp: pop_def Let_def)

lemma pop_cases: "pop xs i = Inl IndexError \<or> (\<exists>ys. pop xs i = Inr ys)"
  by (simp add: pop_def Let_def)

lemma pop_from_front:
  "int (length xs) = i \<Longrightarrow> pop (xs @ x # ys) i = Inr (xs @ ys)"
  by (auto simp: pop_def Let_def)

lemma pop_from_end:
  assumes "int (length (x # ys)) = - i"
  shows "pop (xs @ x # ys) i = Inr (xs @ ys)"
proof -
  have neg: "i < 0"
    using assms by simp
  have j: "i + int (length (xs @ x # ys)) = int (length xs)"
    using assms by simp
  show ?thesis
    unfolding pop_def Let_def j using neg by simp
qed

text \<open>
  C10. \<^verbatim>\<open>delete_resource\<close> returns False exactly when the index is at least the length of
  the stored list or less than minus the length, and then leaves the state as it is. An
  index \<open>i\<close> with \<open>- length \<le> i \<le> - 1\<close> removes the element \<open>- i\<close> positions from the end and
  returns True, as an index within \<open>0 \<le> i < length\<close> removes the element at that position.
\<close>

theorem delete_resource_index:
  assumes "load_resources st = Inr rs"
  shows "(fst (delete_resource st i) = Inr False \<longleftrightarrow>
            i \<ge> int (length rs) \<or> i < - int (length rs)) \<and>
         (fst (delete_resource st i) = Inr False \<longrightarrow> snd (delete_resource st i) = st) \<and>
         (\<forall>xs x ys. rs = xs @ x # ys \<and> int (length (x # ys)) = - i \<longrightarrow>
            fst (delete_resource st i) = Inr True \<and>
            load_resources (snd (delete_resource st i)) = Inr (xs @ ys)) \<and>
         (\<forall>xs x ys. rs = xs @ x # ys \<and> int (length xs) = i \<longrightarrow>
            fst (delete_resource st i) = Inr True \<and>
            load_resources (snd (delete_resource st i)) = Inr (xs @ ys))"
proof -
  have range: "fst (delete_resource st i) = Inr False \<longleftrightarrow>
            i \<ge> int (length rs) \<or> i < - int (length rs)"
    using assms pop_cases [of rs i] pop_range [of rs i]
    by (auto simp: delete_resource_def)
  have unchanged: "fst (delete_resource st i) = Inr False \<longrightarrow> snd (delete_resource st i) = st"
    using assms pop_cases [of rs i] by (auto simp: delete_resource_def)
  have from_end: "fst (delete_resource st i) = Inr True \<and>
            load_resources (snd (delete_resource st i)) = Inr (xs @ ys)"
    if "rs = xs @ x # ys" "int (length (x # ys)) = - i" for xs x ys
    using assms that pop_from_end [of x ys i xs]
    by (simp add: delete_resource_def load_save_resources)
  have from_front: "fst (delete_resource st i) = Inr True \<and>
            load_resources (snd (delete_resource st i)) = Inr (xs @ ys)"
    if "rs = xs @ x # ys" "int (length xs) = i" for xs x ys
    using assms that pop_from_front [of xs i x ys]
    by (simp add: delete_resource_def load_save_resources)
  show ?thesis
    using range unchanged from_end from_front by blast
qed

theorem delete_resource_index_witness:
  "load_resources example_logic = Inr example_resources \<and>
   delete_resource example_logic 5 = (Inr False, example_logic) \<and>
   delete_resource example_logic 2 = (Inr False, example_logic) \<and>
   delete_resource example_logic (- 3) = (Inr False, example_logic) \<and>
   fst (delete_resource example_logic (- 1)) = Inr True \<and>
   load_resources (snd (delete_resource example_logic (- 1))) =
     Inr [PDict [(''name'', PStr ''Campus''), (''url'', PStr ''https://campus.example'')]] \<and>
   fst (delete_resource example_logic (- 2)) = Inr True \<and>
   load_resources (snd (delete_resource example_logic (- 2))) =
     Inr [PDict [(''name'', PStr ''Library''), (''url'', PStr ''https://library.example'')]] \<and>
   fst (delete_resource example_logic 0) = Inr True \<and>
   load_resources (snd (delete_resource example_logic 0)) =
     Inr [PDict [(''name'', PStr ''Library''), (''url'', PStr ''https://library.example'')]]"
proof -
  let ?campus = "PDict [(''name'', PStr ''Campus''), (''url'', PStr ''https://campus.example'')]"
  let ?library = "PDict [(''name'', PStr ''Library''), (''url'', PStr ''https://library.example'')]"
  have l: "load_resources example_logic = Inr example_resources"
    by (simp add: load_resources_def example_logic_def read_json_def item_def and_then_def)
  have n: "length example_resources = 2"
    by (simp add: example_resources_def)
  have r: "example_resources = [?campus, ?library]"
    by (simp add: example_resources_def)
  have out5: "delete_resource example_logic 5 = (Inr False, example_logic)"
    using delete_resource_index [OF l, of 5] n by (simp add: prod_eq_iff)
  have out2: "delete_resource example_logic 2 = (Inr False, example_logic)"
    using delete_resource_index [OF l, of 2] n by (simp add: prod_eq_iff)
  have out3: "delete_resource example_logic (- 3) = (Inr False, example_logic)"
    using delete_resource_index [OF l, of "- 3"] n by (simp add: prod_eq_iff)
  have last: "fst (delete_resource example_logic (- 1)) = Inr True \<and>
      load_resources (snd (delete_resource example_logic (- 1))) = Inr [?campus]"
    using delete_resource_index [OF l, of "- 1", THEN conjunct2, THEN conjunct2, THEN conjunct1,
        rule_format, of "[?campus]" ?library "[]"] r n
    by simp
  have first: "fst (delete_resource example_logic (- 2)) = Inr True \<and>
      load_resources (snd (delete_resource example_logic (- 2))) = Inr [?library]"
    using delete_resource_index [OF l, of "- 2", THEN conjunct2, THEN conjunct2, THEN conjunct1,
        rule_format, of "[]" ?campus "[?library]"] r n
    by simp
  have zero: "fst (delete_resource example_logic 0) = Inr True \<and>
      load_resources (snd (delete_resource example_logic 0)) = Inr [?library]"
    using delete_resource_index [OF l, of 0, THEN conjunct2, THEN conjunct2, THEN conjunct2,
        rule_format, of "[]" ?campus "[?library]"] r n
    by simp
  from l out5 out2 out3 last first zero show ?thesis by blast
qed

end
